theory Spec2Isabelle
  imports Complex_Main
begin

section \<open>Python strings and built-ins used by the engine\<close>

text \<open>
  A Python \<open>str\<close> is modelled as a \<open>string\<close>: ASCII characters are themselves, a code
  point beyond ASCII is its UTF-8 byte sequence. Substring and prefix tests on UTF-8
  bytes agree with the tests on code points. \<open>str.lower\<close> and \<open>str.strip\<close> are modelled
  on the ASCII range; case mappings and white space beyond ASCII are left as they are.
\<close>

datatype py_error = ValueError | KeyError | ProviderError

definition lower_char :: "char \<Rightarrow> char" where
  "lower_char c =
     (let n = (of_char c :: nat) in if 65 \<le> n \<and> n \<le> 90 then char_of (n + 32) else c)"

definition lower :: "string \<Rightarrow> string" where
  "lower s = map lower_char s"

text \<open>\<open>s.startswith(p)\<close>\<close>

fun startswith :: "string \<Rightarrow> string \<Rightarrow> bool" where
  "startswith s [] = True"
| "startswith [] (p # ps) = False"
| "startswith (c # cs) (p # ps) = (c = p \<and> startswith cs ps)"

text \<open>\<open>k in s\<close> for two strings: \<open>k\<close> occurs in \<open>s\<close> as a contiguous substring.\<close>

fun py_in :: "string \<Rightarrow> string \<Rightarrow> bool" where
  "py_in k [] = (k = [])"
| "py_in k (c # cs) = (startswith (c # cs) k \<or> py_in k cs)"

text \<open>
  \<open>max(xs, key=f)\<close>: the running best is replaced only by a strictly greater key, so the
  first maximal element wins; \<open>max\<close> of an empty sequence raises \<open>ValueError\<close>.
\<close>

fun max_from :: "('a \<Rightarrow> 'b::linorder) \<Rightarrow> 'a \<Rightarrow> 'a list \<Rightarrow> 'a" where
  "max_from key best [] = best"
| "max_from key best (x # xs) = max_from key (if key best < key x then x else best) xs"

fun py_max :: "('a \<Rightarrow> 'b::linorder) \<Rightarrow> 'a list \<Rightarrow> py_error + 'a" where
  "py_max key [] = Inl ValueError"
| "py_max key (x # xs) = Inr (max_from key x xs)"

text \<open>\<open>d[k]\<close> on a dict kept as an association list in insertion order.\<close>

definition dict_get :: "('k \<times> 'v) list \<Rightarrow> 'k \<Rightarrow> py_error + 'v" where
  "dict_get d k = (case map_of d k of None \<Rightarrow> Inl KeyError | Some v \<Rightarrow> Inr v)"

section \<open>Query classification (advanced\_prompts.py)\<close>

datatype QueryType = DIAGNOSIS | TREATMENT | PREVENTION | EMERGENCY | GENERAL | PROCEDURE

definition diagnosis_keywords :: "string list" where
  "diagnosis_keywords =
     [''pain'', ''hurt'', ''ache'', ''swollen'', ''bleeding'', ''sensitive'', ''symptoms'',
      ''what's wrong'', ''diagnosis'', ''problem'', ''issue'', ''concern'', ''feels like'']"

definition treatment_keywords :: "string list" where
  "treatment_keywords =
     [''treatment'', ''fix'', ''repair'', ''cure'', ''heal'', ''options'', ''what can be done'',
      ''how to treat'', ''therapy'', ''medication'', ''surgery'']"

definition prevention_keywords :: "string list" where
  "prevention_keywords =
     [''prevent'', ''avoid'', ''stop'', ''care'', ''maintenance'', ''hygiene'', ''brush'',
      ''floss'', ''diet'', ''habits'', ''routine'', ''protect'']"

definition emergency_keywords :: "string list" where
  "emergency_keywords =
     [''emergency'', ''urgent'', ''severe'', ''unbearable'', ''can't sleep'', ''swelling'',
      ''infection'', ''trauma'', ''accident'', ''broken'', ''knocked out'']"

definition procedure_keywords :: "string list" where
  "procedure_keywords =
     [''procedure'', ''surgery'', ''operation'', ''implant'', ''crown'', ''filling'',
      ''root canal'', ''extraction'', ''cleaning'', ''whitening'', ''braces'']"

text \<open>The dict literal of \<open>QueryClassifier.__init__\<close>, in its insertion order.\<close>

definition classification_keywords :: "(QueryType \<times> string list) list" where
  "classification_keywords =
     [(QueryType.DIAGNOSIS, diagnosis_keywords),
      (QueryType.TREATMENT, treatment_keywords),
      (QueryType.PREVENTION, prevention_keywords),
      (QueryType.EMERGENCY, emergency_keywords),
      (QueryType.PROCEDURE, procedure_keywords)]"

text \<open>\<open>sum(1 for keyword in keywords if keyword in question_lower)\<close>\<close>

definition keyword_score :: "string \<Rightarrow> string list \<Rightarrow> int" where
  "keyword_score question_lower keywords =
     sum_list (map (\<lambda>keyword. 1) (filter (\<lambda>keyword. py_in keyword question_lower) keywords))"

definition classify_query :: "string \<Rightarrow> py_error + QueryType" where
  "classify_query user_question =
     (let question_lower = lower user_question in
      case dict_get classification_keywords QueryType.EMERGENCY of
        Inl e \<Rightarrow> Inl e
      | Inr kws \<Rightarrow>
          if list_ex (\<lambda>keyword. py_in keyword question_lower) kws
          then Inr QueryType.EMERGENCY
          else
            let scores = map (\<lambda>(query_type, keywords).
                                (query_type, keyword_score question_lower keywords))
                             classification_keywords
            in case py_max id (map snd scores) of
                 Inl e \<Rightarrow> Inl e
               | Inr m \<Rightarrow>
                   if m > 0
                   then (case py_max snd scores of
                           Inl e \<Rightarrow> Inl e
                         | Inr best \<Rightarrow> Inr (fst best))
                   else Inr QueryType.GENERAL)"





section \<open>Prompt composition (advanced\_prompts.py)\<close>


text \<open>The code points beyond ASCII that the templates use, as UTF-8.\<close>

definition bullet :: string where
  "bullet = [CHR 0xE2, CHR 0x80, CHR 0xA2]"


definition emoji_bulb :: string where
  "emoji_bulb = [CHR 0xF0, CHR 0x9F, CHR 0x92, CHR 0xA1]"

definition emoji_calendar :: string where
  "emoji_calendar = [CHR 0xF0, CHR 0x9F, CHR 0x93, CHR 0x85]"

definition emoji_camera :: string where
  "emoji_camera = [CHR 0xF0, CHR 0x9F, CHR 0x93, CHR 0xB8]"

definition emoji_smile :: string where
  "emoji_smile = [CHR 0xF0, CHR 0x9F, CHR 0x98, CHR 0x8A]"

definition emoji_siren :: string where
  "emoji_siren = [CHR 0xF0, CHR 0x9F, CHR 0x9A, CHR 0xA8]"

definition emoji_tooth :: string where
  "emoji_tooth = [CHR 0xF0, CHR 0x9F, CHR 0xA6, CHR 0xB7]"

definition base_persona :: string where
  \<open>base_persona =
     ''You are Dr. Meenakshi Tomar, DDS - a highly experienced dental professional with over 30 years of practice.\<newline>'' @
     ''\<newline>'' @
     ''CORE IDENTITY:\<newline>'' @
     ''- Graduated from NYU School of Dentistry in 2000\<newline>'' @
     ''- Practicing since 1989 with extensive experience\<newline>'' @
     ''- Specializes in full mouth reconstruction, smile makeovers, laser surgery\<newline>'' @
     ''- WCLI certified for advanced laser procedures\<newline>'' @
     ''- Located at Edmonds Bay Dental in Edmonds, WA\<newline>'' @
     ''- Phone: (425) 775-5162\<newline>'' @
     ''\<newline>'' @
     ''COMMUNICATION STYLE:\<newline>'' @
     ''- Warm, empathetic, and professional\<newline>'' @
     ''- Uses "I" statements naturally (I recommend, I've seen, I do)\<newline>'' @
     ''- Explains complex concepts in simple terms\<newline>'' @
     ''- Shows genuine concern for patient wellbeing\<newline>'' @
     ''- Asks follow-up questions to better understand patient needs\<newline>''\<close>

definition reasoning_template_diagnosis :: string where
  \<open>reasoning_template_diagnosis =
     ''\<newline>'' @
     ''RESPONSE FORMAT - DETAILED BUT ORGANIZED:\<newline>'' @
     ''1. Direct answer about the condition\<newline>'' @
     ''2. Key symptoms/causes (use bullet points)\<newline>'' @
     ''3. Immediate recommendations\<newline>'' @
     ''4. Follow-up question\<newline>'' @
     ''\<newline>'' @
     ''Example: "Based on your symptoms, this sounds like gingivitis by Dr Menakshi Tomar's assessment.\<newline>'' @
     ''\<newline>'' @
     ''Common signs include:\<newline>'' @
     bullet @ '' Red, swollen gums\<newline>'' @
     bullet @ '' Bleeding during brushing\<newline>'' @
     bullet @ '' Bad breath\<newline>'' @
     bullet @ '' Tender gums\<newline>'' @
     ''\<newline>'' @
     ''I recommend improving your oral hygiene routine and scheduling a professional cleaning. How long have you been experiencing these symptoms? '' @ emoji_tooth @ ''"\<newline>''\<close>

definition reasoning_template_treatment :: string where
  \<open>reasoning_template_treatment =
     ''\<newline>'' @
     ''RESPONSE FORMAT - BRIEF AND CLEAR (2-3 sentences max):\<newline>'' @
     ''1. Answer the treatment question directly\<newline>'' @
     ''2. Mention one key benefit\<newline>'' @
     ''3. Suggest next step\<newline>'' @
     ''\<newline>'' @
     ''Example: "Yes, I do [treatment] at my  best practice by Dr Menakshi Tomar. This treatment [key benefit]. Would you like to schedule a consultation?"\<newline>''\<close>

definition reasoning_template_prevention :: string where
  \<open>reasoning_template_prevention =
     ''\<newline>'' @
     ''RESPONSE FORMAT - DETAILED PREVENTION GUIDANCE:\<newline>'' @
     ''1. Answer the prevention question directly\<newline>'' @
     ''2. Key prevention strategies (use bullet points)\<newline>'' @
     ''3. Lifestyle recommendations\<newline>'' @
     ''4. Regular care importance\<newline>'' @
     ''5. Follow-up question\<newline>'' @
     ''\<newline>'' @
     ''Example: "To prevent gum disease, I recommend a comprehensive approach by Dr Menakshi Tomar.\<newline>'' @
     ''\<newline>'' @
     ''Key prevention strategies:\<newline>'' @
     bullet @ '' Brush twice daily with fluoride toothpaste\<newline>'' @
     bullet @ '' Floss daily to remove plaque between teeth\<newline>'' @
     bullet @ '' Use antimicrobial mouthwash\<newline>'' @
     bullet @ '' Avoid sugary snacks and drinks\<newline>'' @
     bullet @ '' Schedule regular cleanings every 6 months\<newline>'' @
     ''\<newline>'' @
     ''These steps significantly reduce your risk of dental problems. When was your last professional cleaning? '' @ emoji_bulb @ ''"\<newline>''\<close>

definition reasoning_template_emergency :: string where
  \<open>reasoning_template_emergency =
     ''\<newline>'' @
     ''EMERGENCY ASSESSMENT PROTOCOL:\<newline>'' @
     ''1. IMMEDIATE CONCERN: Is this a dental emergency requiring urgent care?\<newline>'' @
     ''2. PAIN MANAGEMENT: Immediate steps to manage discomfort\<newline>'' @
     ''3. RISK EVALUATION: Potential complications if left untreated\<newline>'' @
     ''4. URGENT ACTIONS: What needs to be done right now\<newline>'' @
     ''5. FOLLOW-UP CARE: Next steps after immediate treatment\<newline>'' @
     ''\<newline>'' @
     ''This requires immediate attention - here's my assessment:\<newline>''\<close>

definition reasoning_template_procedure :: string where
  \<open>reasoning_template_procedure =
     ''\<newline>'' @
     ''RESPONSE FORMAT - DETAILED PROCEDURE EXPLANATION:\<newline>'' @
     ''1. Brief overview of procedure\<newline>'' @
     ''2. Key steps/process (use bullet points)\<newline>'' @
     ''3. Benefits and outcomes\<newline>'' @
     ''4. Recovery/aftercare tips\<newline>'' @
     ''5. Consultation offer\<newline>'' @
     ''\<newline>'' @
     ''Example: "Dental implants replace missing teeth with titanium posts by Dr Menakshi Tomar.\<newline>'' @
     ''\<newline>'' @
     ''The process includes:\<newline>'' @
     bullet @ '' Initial consultation and X-rays\<newline>'' @
     bullet @ '' Surgical placement of implant\<newline>'' @
     bullet @ '' Healing period (3-6 months)\<newline>'' @
     bullet @ '' Crown attachment\<newline>'' @
     ''\<newline>'' @
     ''Benefits include natural feel and permanent solution. Recovery involves soft foods for a few days.\<newline>'' @
     ''\<newline>'' @
     ''Would you like to schedule a consultation to discuss your specific case? '' @ emoji_tooth @ ''"\<newline>''\<close>

definition reasoning_template_general :: string where
  \<open>reasoning_template_general =
     ''\<newline>'' @
     ''KEEP ANSWERS SHORT AND HELPFUL:\<newline>'' @
     ''1. Answer the question directly\<newline>'' @
     ''2. Give practical advice\<newline>'' @
     ''3. Ask follow-up if needed\<newline>'' @
     ''\<newline>'' @
     ''Provide a brief, professional response:\<newline>''\<close>

definition response_requirements :: string where
  \<open>response_requirements =
     ''\<newline>'' @
     ''\<newline>'' @
     ''CRITICAL RESPONSE REQUIREMENTS:\<newline>'' @
     ''- For SIMPLE questions: 2-3 sentences maximum\<newline>'' @
     ''- For DISEASES/PROCEDURES/PROCESSES: Detailed but organized response with bullet points\<newline>'' @
     ''- Answer the question directly in first sentence\<newline>'' @
     ''- Use bullet points for key information when explaining diseases/procedures\<newline>'' @
     ''- PROPER FORMATTING: Use line breaks and spacing for readability\<newline>'' @
     ''- CONTEXTUAL EMOJIS: Choose emoji based on topic ('' @ emoji_tooth @ '' dental, '' @ emoji_smile @ '' friendly, '' @ emoji_siren @ '' emergency, '' @ emoji_bulb @ '' tips, '' @ emoji_calendar @ '' appointment)\<newline>'' @
     ''- Keep it conversational and warm like talking to a friend\<newline>'' @
     ''- Use "I" statements naturally (I do, I recommend, I've seen)\<newline>'' @
     ''- Always mention "by Dr Menakshi Tomar" when referring to practice/treatment\<newline>'' @
     ''\<newline>'' @
     ''FORMATTING EXAMPLES:\<newline>'' @
     ''\<newline>'' @
     ''SIMPLE QUESTION - GOOD FORMAT:\<newline>'' @
     ''"Yes, I do dental implants at my practice by Dr Menakshi Tomar. They're an excellent way to replace missing teeth and feel just like your natural teeth.\<newline>'' @
     ''\<newline>'' @
     ''Would you like to schedule a consultation to discuss your specific needs? '' @ emoji_tooth @ ''"\<newline>'' @
     ''\<newline>'' @
     ''DETAILED QUESTION - GOOD FORMAT:\<newline>'' @
     ''"Yes, we have dental X-ray facilities at my practice by Dr Menakshi Tomar. X-rays help me diagnose hidden issues that aren't visible during regular exams.\<newline>'' @
     ''\<newline>'' @
     ''Key benefits include:\<newline>'' @
     bullet @ '' Detecting decay between teeth\<newline>'' @
     bullet @ '' Identifying bone loss\<newline>'' @
     bullet @ '' Finding abscesses or cysts\<newline>'' @
     bullet @ '' Checking for developmental issues\<newline>'' @
     ''\<newline>'' @
     ''The radiation exposure is very low and completely safe. When was your last X-ray taken? '' @ emoji_camera @ ''"\<newline>'' @
     ''\<newline>'' @
     ''BAD FORMAT (Poor spacing):\<newline>'' @
     ''"Yes, we do have the facility for dental X-rays at Edmonds Bay Dental, by Dr. Meenakshi Tomar. Dental X-rays are essential for accurately diagnosing hidden issues that may not be visible during a regular exam. They help me identify: Abscesses or cysts Bone loss Decay between teeth..."\<newline>'' @
     ''\<newline>'' @
     ''Now provide your WELL-FORMATTED response with proper spacing and contextual emoji:\<newline>''\<close>



text \<open>The dict literal of \<open>_get_reasoning_templates\<close>.\<close>

definition reasoning_templates :: "(QueryType \<times> string) list" where
  "reasoning_templates =
     [(QueryType.DIAGNOSIS, reasoning_template_diagnosis),
      (QueryType.TREATMENT, reasoning_template_treatment),
      (QueryType.PREVENTION, reasoning_template_prevention),
      (QueryType.EMERGENCY, reasoning_template_emergency),
      (QueryType.PROCEDURE, reasoning_template_procedure),
      (QueryType.GENERAL, reasoning_template_general)]"

text \<open>
  \<open>get_chain_of_thought_prompt\<close>: the f-string, piece by piece. The default of
  \<open>reasoning_templates.get\<close> is the entry of \<open>GENERAL\<close>, which the dict literal holds.
\<close>

definition get_chain_of_thought_prompt :: "QueryType \<Rightarrow> string \<Rightarrow> string \<Rightarrow> string" where
  "get_chain_of_thought_prompt query_type user_question context =
     (let reasoning_template =
            (case map_of reasoning_templates query_type of
               Some t \<Rightarrow> t
             | None \<Rightarrow> reasoning_template_general)
      in base_persona @ ''\<newline>\<newline>PATIENT QUESTION: '' @ user_question @ ''\<newline>\<newline>'' @
         (if context \<noteq> [] then ''RELEVANT CONTEXT FROM KNOWLEDGE BASE: '' @ context else []) @
         ''\<newline>\<newline>'' @ reasoning_template @ response_requirements)"


section \<open>Specialist agents (multi\_agent\_system.py)\<close>

datatype AgentType = DIAGNOSTIC | TREATMENT | PREVENTION | EMERGENCY | GENERAL

record AgentResponse =
  content :: string
  confidence :: real
  agent_type :: AgentType
  reasoning_steps :: "string list"
  quality_score :: real
  attempts_used :: int

text \<open>
  Modelled from the spec: the type of the entries of \<open>quality_scores\<close> is declared in
  quality\_checker.py, which is not among the sources. The specification's QualityReport
  has an overall score between 0 and 100 and an ordered list of named defects; the agent
  reads only \<open>overall_score\<close>. Python floats are idealised as reals.
\<close>

record QualityScore =
  overall_score :: real
  issues :: "string list"

definition specialization_diagnostic :: string where
  \<open>specialization_diagnostic =
     ''\<newline>'' @
     ''DIAGNOSTIC SPECIALIZATION:\<newline>'' @
     ''- Expert in symptom analysis and differential diagnosis\<newline>'' @
     ''- Skilled in identifying urgent vs non-urgent conditions\<newline>'' @
     ''- Experienced in pain assessment and oral pathology\<newline>'' @
     ''- Focuses on thorough symptom evaluation and risk assessment\<newline>''\<close>

definition specialization_treatment :: string where
  \<open>specialization_treatment =
     ''\<newline>'' @
     ''TREATMENT SPECIALIZATION:\<newline>'' @
     ''- Expert in comprehensive treatment planning\<newline>'' @
     ''- Skilled in explaining complex procedures clearly\<newline>'' @
     ''- Experienced in treatment options and alternatives\<newline>'' @
     ''- Focuses on patient education and informed consent\<newline>''\<close>

definition specialization_prevention :: string where
  \<open>specialization_prevention =
     ''\<newline>'' @
     ''PREVENTION SPECIALIZATION:\<newline>'' @
     ''- Expert in preventive dentistry and oral hygiene\<newline>'' @
     ''- Skilled in patient education and behavior modification\<newline>'' @
     ''- Experienced in risk factor assessment and management\<newline>'' @
     ''- Focuses on long-term oral health maintenance\<newline>''\<close>

definition specialization_emergency :: string where
  \<open>specialization_emergency =
     ''\<newline>'' @
     ''EMERGENCY SPECIALIZATION:\<newline>'' @
     ''- Expert in dental emergency assessment and triage\<newline>'' @
     ''- Skilled in pain management and urgent care protocols\<newline>'' @
     ''- Experienced in trauma and acute condition management\<newline>'' @
     ''- Focuses on immediate care and stabilization\<newline>''\<close>

definition specialization_general :: string where
  \<open>specialization_general =
     ''\<newline>'' @
     ''GENERAL CONSULTATION SPECIALIZATION:\<newline>'' @
     ''- Expert in comprehensive dental care coordination\<newline>'' @
     ''- Skilled in patient communication and education\<newline>'' @
     ''- Experienced in holistic oral health assessment\<newline>'' @
     ''- Focuses on overall patient wellbeing and care continuity\<newline>''\<close>

definition fallback_content :: string where
  \<open>fallback_content =
     ''I apologize, but I'm having difficulty processing your question right now. Please try again or consider scheduling an in-person consultation.''\<close>

definition specializations :: "(AgentType \<times> string) list" where
  "specializations =
     [(AgentType.DIAGNOSTIC, specialization_diagnostic),
      (AgentType.TREATMENT, specialization_treatment),
      (AgentType.PREVENTION, specialization_prevention),
      (AgentType.EMERGENCY, specialization_emergency),
      (AgentType.GENERAL, specialization_general)]"

definition get_specialist_persona :: "AgentType \<Rightarrow> string" where
  "get_specialist_persona self_agent_type =
     base_persona @ (case map_of specializations self_agent_type of Some s \<Rightarrow> s | None \<Rightarrow> [])"

text \<open>\<open>str.split('\n')\<close>: the pieces between line feeds; an empty string gives one empty piece.\<close>

fun split_lines :: "string \<Rightarrow> string list" where
  "split_lines [] = [[]]"
| "split_lines (c # cs) =
     (if c = CHR ''\<newline>'' then [] # split_lines cs
      else (case split_lines cs of [] \<Rightarrow> [[c]] | l # ls \<Rightarrow> (c # l) # ls))"

text \<open>\<open>str.strip()\<close> on the ASCII white space characters.\<close>

definition is_space :: "char \<Rightarrow> bool" where
  "is_space c =
     (c \<in> set [CHR 0x09, CHR 0x0A, CHR 0x0B, CHR 0x0C, CHR 0x0D,
                CHR 0x1C, CHR 0x1D, CHR 0x1E, CHR 0x1F, CHR 0x20])"

definition strip :: "string \<Rightarrow> string" where
  "strip s = rev (dropWhile is_space (rev (dropWhile is_space s)))"

text \<open>\<open>s.startswith((p1, ..., pn))\<close> with a tuple of prefixes.\<close>

definition startswith_any :: "string \<Rightarrow> string list \<Rightarrow> bool" where
  "startswith_any s ps = list_ex (startswith s) ps"

definition is_reasoning_line :: "string \<Rightarrow> bool" where
  "is_reasoning_line line =
     (startswith_any line [''1.'', ''2.'', ''3.'', ''4.'', ''5.''] \<or>
      startswith_any line [bullet, ''-'', ''*''] \<or>
      py_in ''step'' (lower line))"

definition extract_reasoning_steps :: "string \<Rightarrow> string list" where
  "extract_reasoning_steps response =
     take 5 (filter is_reasoning_line (map strip (split_lines response)))"

definition calculate_confidence :: "QualityScore list \<Rightarrow> real" where
  "calculate_confidence quality_scores =
     (if quality_scores = [] then 0.5
      else
        let final_score = overall_score (last quality_scores);
            attempts = int (length quality_scores);
            base_confidence = final_score / 100.0;
            attempt_penalty = real_of_int (attempts - 1) * 0.1
        in max 0.1 (min 1.0 (base_confidence - attempt_penalty)))"

text \<open>
  The completion provider: \<open>client.chat.completions.create(...)\<close> followed by
  \<open>response.choices[0].message.content\<close>, with the fixed model and sampling parameters.
  It is an external service, so it is a parameter that reads and updates a world state
  \<open>'w\<close> and either returns the generated text or raises.
\<close>

type_synonym 'w provider = "string \<Rightarrow> 'w \<Rightarrow> (py_error + string) \<times> 'w"

text \<open>
  \<open>RepromptingSystem.improve_response_with_reprompting(full_prompt, user_question,
  initial_response, context)\<close>, defined in quality\_checker.py, which is not among the
  sources: a parameter of the agent, returning \<open>(final_response, attempts,
  quality_scores)\<close> or raising.
\<close>

type_synonym 'w reprompting =
  "string \<Rightarrow> string \<Rightarrow> string \<Rightarrow> string \<Rightarrow> 'w \<Rightarrow> (py_error + (string \<times> int \<times> QualityScore list)) \<times> 'w"

text \<open>The response built in the \<open>except\<close> branch of \<open>process_query\<close>.\<close>

definition fallback_response :: "AgentType \<Rightarrow> AgentResponse" where
  "fallback_response self_agent_type =
     \<lparr>content = fallback_content, confidence = 0.0, agent_type = self_agent_type,
      reasoning_steps = [], quality_score = 0.0, attempts_used = 1\<rparr>"

text \<open>
  \<open>BaseAgent.process_query\<close>. The classifier runs before the \<open>try\<close>, so an exception
  there would leave the method; everything from the first provider call on is inside the
  \<open>try\<close>, whose \<open>except Exception\<close> branch returns the fallback response.
\<close>

definition process_query ::
  "'w provider \<Rightarrow> 'w reprompting \<Rightarrow> AgentType \<Rightarrow> string \<Rightarrow> string \<Rightarrow> QueryType option \<Rightarrow> 'w
     \<Rightarrow> (py_error + AgentResponse) \<times> 'w" where
  "process_query client improve self_agent_type user_question context query_type w =
     (case (case query_type of Some qt \<Rightarrow> Inr qt | None \<Rightarrow> classify_query user_question) of
        Inl e \<Rightarrow> (Inl e, w)
      | Inr agent_query_type \<Rightarrow>
          let specialist_persona = get_specialist_persona self_agent_type;
              cot_prompt = get_chain_of_thought_prompt agent_query_type user_question context;
              full_prompt = specialist_persona @ ''\<newline>\<newline>'' @ cot_prompt
          in case client full_prompt w of
               (Inl e, w1) \<Rightarrow> (Inr (fallback_response self_agent_type), w1)
             | (Inr initial_response, w1) \<Rightarrow>
                 (case improve full_prompt user_question initial_response context w1 of
                    (Inl e, w2) \<Rightarrow> (Inr (fallback_response self_agent_type), w2)
                  | (Inr (final_response, attempts, quality_scores), w2) \<Rightarrow>
                      (Inr \<lparr>content = final_response,
                            confidence = calculate_confidence quality_scores,
                            agent_type = self_agent_type,
                            reasoning_steps = extract_reasoning_steps final_response,
                            quality_score =
                              (if quality_scores \<noteq> [] then overall_score (last quality_scores)
                               else 0),
                            attempts_used = attempts\<rparr>, w2)))"

section \<open>Orchestration (multi\_agent\_system.py)\<close>

text \<open>The dict literal \<open>routing_map\<close> of \<open>route_query\<close>.\<close>

definition routing_map :: "(QueryType \<times> AgentType) list" where
  "routing_map =
     [(QueryType.DIAGNOSIS, AgentType.DIAGNOSTIC),
      (QueryType.TREATMENT, AgentType.TREATMENT),
      (QueryType.PREVENTION, AgentType.PREVENTION),
      (QueryType.EMERGENCY, AgentType.EMERGENCY),
      (QueryType.PROCEDURE, AgentType.TREATMENT),
      (QueryType.GENERAL, AgentType.GENERAL)]"

definition route_of :: "QueryType \<Rightarrow> AgentType" where
  "route_of query_type =
     (case map_of routing_map query_type of Some a \<Rightarrow> a | None \<Rightarrow> AgentType.GENERAL)"

definition route_query :: "string \<Rightarrow> py_error + AgentType" where
  "route_query user_question =
     (case classify_query user_question of
        Inl e \<Rightarrow> Inl e
      | Inr query_type \<Rightarrow> Inr (route_of query_type))"

text \<open>
  The retrieval collaborator \<open>rag_pipeline.retrieve_and_rank\<close> (advanced\_rag.py, an
  external collaborator): a parameter that returns the context text and the retrieved
  chunks, or raises.
\<close>

type_synonym ('w, 'c) retriever = "string \<Rightarrow> 'w \<Rightarrow> (py_error + (string \<times> 'c list)) \<times> 'w"

text \<open>
  \<open>self.agents\<close> maps every \<open>AgentType\<close> to \<open>BaseAgent(openai_client, that type)\<close>, so
  \<open>self.agents[t].process_query(...)\<close> is \<open>process_query\<close> at agent type \<open>t\<close> with the
  shared client.
\<close>

definition process_consultation ::
  "'w provider \<Rightarrow> 'w reprompting \<Rightarrow> ('w, 'c) retriever \<Rightarrow> string \<Rightarrow> 'w
     \<Rightarrow> (py_error + AgentResponse) \<times> 'w" where
  "process_consultation client improve rag user_question w =
     (case rag user_question w of
        (Inl e, w1) \<Rightarrow> (Inl e, w1)
      | (Inr (context, retrieved_chunks), w1) \<Rightarrow>
          (case route_query user_question of
             Inl e \<Rightarrow> (Inl e, w1)
           | Inr selected_agent_type \<Rightarrow>
               process_query client improve selected_agent_type user_question context None w1))"




section \<open>The refinement loop (quality\_checker.py, not among the sources)\<close>







section \<open>Names for values inside \<open>process_query\<close>, and example collaborators\<close>

text \<open>The category \<open>agent_query_type\<close> and the string \<open>full_prompt\<close> of \<open>process_query\<close>.\<close>

definition agent_query_type :: "QueryType option \<Rightarrow> string \<Rightarrow> py_error + QueryType" where
  "agent_query_type query_type user_question =
     (case query_type of Some qt \<Rightarrow> Inr qt | None \<Rightarrow> classify_query user_question)"

definition full_prompt :: "AgentType \<Rightarrow> QueryType \<Rightarrow> string \<Rightarrow> string \<Rightarrow> string" where
  "full_prompt self_agent_type query_type user_question context =
     get_specialist_persona self_agent_type @ ''\<newline>\<newline>'' @
     get_chain_of_thought_prompt query_type user_question context"

text \<open>
  Example collaborators, used as concrete inputs. The world state of the examples counts
  the provider calls made so far.
\<close>

definition failing_provider :: "nat provider" where
  "failing_provider prompt n = (Inl ProviderError, Suc n)"

definition drafting_provider :: "nat provider" where
  "drafting_provider prompt n =
     (Inr (if n = 0 then ''- first draft'' else ''second draft''), Suc n)"

definition single_pass :: "nat reprompting" where
  "single_pass prompt user_question initial_response context n =
     (Inr (initial_response, 1, [\<lparr>overall_score = 80, issues = []\<rparr>]), n)"

definition example_retriever :: "(nat, string) retriever" where
  "example_retriever user_question n = (Inr (''Implants replace missing teeth.'', [''chunk'']), n)"



section \<open>Facts about the built-ins\<close>







section \<open>Classification\<close>

lemma dict_get_emergency:
  "dict_get classification_keywords QueryType.EMERGENCY = Inr emergency_keywords"
  by (simp add: dict_get_def classification_keywords_def)


lemma keyword_score_length:
  "keyword_score ql kws = int (length (filter (\<lambda>k. py_in k ql) kws))"
  unfolding keyword_score_def by (induction kws) simp_all

lemma keyword_score_nonneg: "0 \<le> keyword_score ql kws"
  by (simp add: keyword_score_length)

lemma keyword_score_zero_iff:
  "keyword_score ql kws = 0 \<longleftrightarrow> \<not> (\<exists>k \<in> set kws. py_in k ql)"
  by (simp add: keyword_score_length filter_empty_conv)

lemma classify_query_hit:
  assumes "\<exists>k \<in> set emergency_keywords. py_in k (lower q)"
  shows "classify_query q = Inr QueryType.EMERGENCY"
  using assms by (simp add: classify_query_def dict_get_emergency list_ex_iff)

text \<open>
  Without an emergency hit, \<open>classify_query\<close> is the two \<open>max\<close> calls over the five
  scores in the insertion order of the dict.
\<close>

lemma classify_query_no_hit:
  assumes "\<not> (\<exists>k \<in> set emergency_keywords. py_in k (lower q))"
  shows "classify_query q =
      (if 0 < max_from id (keyword_score (lower q) diagnosis_keywords)
                 [keyword_score (lower q) treatment_keywords,
                  keyword_score (lower q) prevention_keywords,
                  keyword_score (lower q) emergency_keywords,
                  keyword_score (lower q) procedure_keywords]
       then Inr (fst (max_from snd
              (QueryType.DIAGNOSIS, keyword_score (lower q) diagnosis_keywords)
              [(QueryType.TREATMENT, keyword_score (lower q) treatment_keywords),
               (QueryType.PREVENTION, keyword_score (lower q) prevention_keywords),
               (QueryType.EMERGENCY, keyword_score (lower q) emergency_keywords),
               (QueryType.PROCEDURE, keyword_score (lower q) procedure_keywords)]))
       else Inr QueryType.GENERAL)"
proof -
  have m: "map f classification_keywords =
      [f (QueryType.DIAGNOSIS, diagnosis_keywords), f (QueryType.TREATMENT, treatment_keywords),
       f (QueryType.PREVENTION, prevention_keywords), f (QueryType.EMERGENCY, emergency_keywords),
       f (QueryType.PROCEDURE, procedure_keywords)]"
    for f :: "QueryType \<times> string list \<Rightarrow> QueryType \<times> int"
    by (simp add: classification_keywords_def)
  show ?thesis
    using assms by (simp add: classify_query_def dict_get_emergency m list_ex_iff Let_def)
qed

lemma classify_query_not_emergency:
  assumes "\<not> (\<exists>k \<in> set emergency_keywords. py_in k (lower q))"
  shows "\<exists>c. classify_query q = Inr c \<and> c \<noteq> QueryType.EMERGENCY"
proof -
  have e0: "keyword_score (lower q) emergency_keywords = 0"
    using assms by (simp add: keyword_score_zero_iff)
  have nn: "0 \<le> keyword_score (lower q) diagnosis_keywords"
    "0 \<le> keyword_score (lower q) treatment_keywords"
    "0 \<le> keyword_score (lower q) prevention_keywords"
    "0 \<le> keyword_score (lower q) procedure_keywords"
    by (rule keyword_score_nonneg)+
  show ?thesis
    unfolding classify_query_no_hit [OF assms] e0 using nn by (simp; linarith)
qed

lemma classify_query_total: "\<exists>c. classify_query q = Inr c"
proof (cases "\<exists>k \<in> set emergency_keywords. py_in k (lower q)")
  case True
  then show ?thesis by (simp add: classify_query_hit)
next
  case False
  then show ?thesis using classify_query_not_emergency by blast
qed







section \<open>The agent\<close>

lemma agent_query_type_total: "\<exists>c. agent_query_type qt q = Inr c"
  by (cases qt) (simp_all add: agent_query_type_def classify_query_total)

lemma process_query_unfold:
  assumes "agent_query_type qt q = Inr c"
  shows "process_query client improve t q ctx qt w =
     (case client (full_prompt t c q ctx) w of
        (Inl e, w1) \<Rightarrow> (Inr (fallback_response t), w1)
      | (Inr initial_response, w1) \<Rightarrow>
          (case improve (full_prompt t c q ctx) q initial_response ctx w1 of
             (Inl e, w2) \<Rightarrow> (Inr (fallback_response t), w2)
           | (Inr (final_response, attempts, quality_scores), w2) \<Rightarrow>
               (Inr \<lparr>content = final_response,
                     confidence = calculate_confidence quality_scores,
                     agent_type = t,
                     reasoning_steps = extract_reasoning_steps final_response,
                     quality_score =
                       (if quality_scores \<noteq> [] then overall_score (last quality_scores)
                        else 0),
                     attempts_used = attempts\<rparr>, w2)))"
proof -
  have "process_query client improve t q ctx qt w =
     (case agent_query_type qt q of
        Inl e \<Rightarrow> (Inl e, w)
      | Inr c \<Rightarrow>
     (case client (full_prompt t c q ctx) w of
        (Inl e, w1) \<Rightarrow> (Inr (fallback_response t), w1)
      | (Inr initial_response, w1) \<Rightarrow>
          (case improve (full_prompt t c q ctx) q initial_response ctx w1 of
             (Inl e, w2) \<Rightarrow> (Inr (fallback_response t), w2)
           | (Inr (final_response, attempts, quality_scores), w2) \<Rightarrow>
               (Inr \<lparr>content = final_response,
                     confidence = calculate_confidence quality_scores,
                     agent_type = t,
                     reasoning_steps = extract_reasoning_steps final_response,
                     quality_score =
                       (if quality_scores \<noteq> [] then overall_score (last quality_scores)
                        else 0),
                     attempts_used = attempts\<rparr>, w2))))"
    unfolding process_query_def agent_query_type_def full_prompt_def Let_def ..
  then show ?thesis by (simp only: assms sum.case)
qed


lemma process_query_client_fails:
  assumes "agent_query_type qt q = Inr c"
    and "client (full_prompt t c q ctx) w = (Inl e, w1)"
  shows "process_query client improve t q ctx qt w = (Inr (fallback_response t), w1)"
  unfolding process_query_unfold [OF assms(1)] assms(2) by simp

lemma process_query_improve_fails:
  assumes "agent_query_type qt q = Inr c"
    and "client (full_prompt t c q ctx) w = (Inr initial, w1)"
    and "improve (full_prompt t c q ctx) q initial ctx w1 = (Inl e, w2)"
  shows "process_query client improve t q ctx qt w = (Inr (fallback_response t), w2)"
  unfolding process_query_unfold [OF assms(1)] assms(2) by (simp add: assms(3))

lemma process_query_success:
  assumes "agent_query_type qt q = Inr c"
    and "client (full_prompt t c q ctx) w = (Inr initial, w1)"
    and "improve (full_prompt t c q ctx) q initial ctx w1 = (Inr (final, attempts, qs), w2)"
  shows "process_query client improve t q ctx qt w =
           (Inr \<lparr>content = final,
                 confidence = calculate_confidence qs,
                 agent_type = t,
                 reasoning_steps = extract_reasoning_steps final,
                 quality_score = (if qs \<noteq> [] then overall_score (last qs) else 0),
                 attempts_used = attempts\<rparr>, w2)"
  unfolding process_query_unfold [OF assms(1)] assms(2) by (simp add: assms(3))

text \<open>The three ways \<open>process_query\<close> can end.\<close>

lemma process_query_cases:
  obtains (client_fails) c e w1 where
      "agent_query_type qt q = Inr c"
      "client (full_prompt t c q ctx) w = (Inl e, w1)"
      "process_query client improve t q ctx qt w = (Inr (fallback_response t), w1)"
  | (improve_fails) c initial w1 e w2 where
      "agent_query_type qt q = Inr c"
      "client (full_prompt t c q ctx) w = (Inr initial, w1)"
      "improve (full_prompt t c q ctx) q initial ctx w1 = (Inl e, w2)"
      "process_query client improve t q ctx qt w = (Inr (fallback_response t), w2)"
  | (success) c initial w1 final attempts qs w2 where
      "agent_query_type qt q = Inr c"
      "client (full_prompt t c q ctx) w = (Inr initial, w1)"
      "improve (full_prompt t c q ctx) q initial ctx w1 = (Inr (final, attempts, qs), w2)"
      "process_query client improve t q ctx qt w =
           (Inr \<lparr>content = final,
                 confidence = calculate_confidence qs,
                 agent_type = t,
                 reasoning_steps = extract_reasoning_steps final,
                 quality_score = (if qs \<noteq> [] then overall_score (last qs) else 0),
                 attempts_used = attempts\<rparr>, w2)"
proof -
  obtain c where c: "agent_query_type qt q = Inr c"
    using agent_query_type_total by blast
  obtain g w1 where g: "client (full_prompt t c q ctx) w = (g, w1)"
    by (cases "client (full_prompt t c q ctx) w")
  show thesis
  proof (cases g)
    case (Inl e)
    with g have g': "client (full_prompt t c q ctx) w = (Inl e, w1)" by simp
    show thesis by (rule client_fails [OF c g' process_query_client_fails [where client = client and improve = improve, OF c g']])
  next
    case (Inr initial)
    with g have g': "client (full_prompt t c q ctx) w = (Inr initial, w1)" by simp
    obtain i w2 where i: "improve (full_prompt t c q ctx) q initial ctx w1 = (i, w2)"
      by (cases "improve (full_prompt t c q ctx) q initial ctx w1")
    show thesis
    proof (cases i)
      case (Inl e)
      with i have i': "improve (full_prompt t c q ctx) q initial ctx w1 = (Inl e, w2)" by simp
      show thesis by (rule improve_fails [OF c g' i' process_query_improve_fails [where client = client and improve = improve, OF c g' i']])
    next
      case inr: (Inr res)
      obtain final attempts qs where res: "res = (final, attempts, qs)" by (cases res)
      with i inr have i': "improve (full_prompt t c q ctx) q initial ctx w1
           = (Inr (final, attempts, qs), w2)" by simp
      show thesis by (rule success [OF c g' i' process_query_success [where client = client and improve = improve, OF c g' i']])
    qed
  qed
qed

lemma process_query_total:
  "\<exists>r w'. process_query client improve t q ctx qt w = (Inr r, w')"
  by (cases rule: process_query_cases [of qt q client t ctx w improve]) simp_all





lemma fallback_response_simps:
  "content (fallback_response t) = fallback_content"
  "confidence (fallback_response t) = 0"
  "agent_type (fallback_response t) = t"
  "reasoning_steps (fallback_response t) = []"
  "quality_score (fallback_response t) = 0"
  "attempts_used (fallback_response t) = 1"
  by (simp_all add: fallback_response_def)

lemma failing_provider_process_query:
  "process_query failing_provider improve t q ctx qt n = (Inr (fallback_response t), Suc n)"
proof -
  obtain c where c: "agent_query_type qt q = Inr c" using agent_query_type_total by blast
  have g: "failing_provider (full_prompt t c q ctx) n = (Inl ProviderError, Suc n)"
    by (simp add: failing_provider_def)
  show ?thesis
    by (rule process_query_client_fails [where client = failing_provider, OF c g])
qed

text \<open>
  C3 (as amended). When the first generation of an agent fails, \<open>process_query\<close> returns
  the fixed fallback message with confidence 0, quality score 0 and one attempt, and the
  response carries the type of the agent that handled the question (General only for the
  General agent). Whatever the provider and the reprompting system do, \<open>process_query\<close>
  returns a response and raises nothing.
\<close>

theorem first_round_failure_fallback:
  assumes "agent_query_type query_type user_question = Inr c"
    and "client (full_prompt self_agent_type c user_question context) w = (Inl e, w1)"
  shows "process_query client improve self_agent_type user_question context query_type w
           = (Inr \<lparr>content = fallback_content, confidence = 0,
                   agent_type = self_agent_type, reasoning_steps = [],
                   quality_score = 0, attempts_used = 1\<rparr>, w1) \<and>
         (\<exists>r' w'. process_query client' improve' self_agent_type' user_question' context'
                     query_type' w0 = (Inr r', w'))"
proof
  show "process_query client improve self_agent_type user_question context query_type w
           = (Inr \<lparr>content = fallback_content, confidence = 0,
                   agent_type = self_agent_type, reasoning_steps = [],
                   quality_score = 0, attempts_used = 1\<rparr>, w1)"
    using process_query_client_fails [where client = client and improve = improve, OF assms]
    by (simp add: fallback_response_def)
  show "\<exists>r' w'. process_query client' improve' self_agent_type' user_question' context'
                   query_type' w0 = (Inr r', w')"
    by (rule process_query_total)
qed

theorem first_round_failure_fallback_witness:
  "agent_query_type (Some QueryType.EMERGENCY) ''my tooth is broken'' = Inr QueryType.EMERGENCY \<and>
   failing_provider
     (full_prompt AgentType.EMERGENCY QueryType.EMERGENCY ''my tooth is broken'' []) 0
     = (Inl ProviderError, 1) \<and>
   process_query failing_provider single_pass AgentType.EMERGENCY ''my tooth is broken''
       [] (Some QueryType.EMERGENCY) 0
     = (Inr \<lparr>content = fallback_content, confidence = 0,
             agent_type = AgentType.EMERGENCY, reasoning_steps = [],
             quality_score = 0, attempts_used = 1\<rparr>, 1)"
proof -
  have h1: "agent_query_type (Some QueryType.EMERGENCY) ''my tooth is broken''
              = Inr QueryType.EMERGENCY"
    by (simp add: agent_query_type_def)
  have h2: "failing_provider
     (full_prompt AgentType.EMERGENCY QueryType.EMERGENCY ''my tooth is broken'' []) 0
     = (Inl ProviderError, 1)"
    by (simp add: failing_provider_def)
  have "process_query failing_provider single_pass AgentType.EMERGENCY ''my tooth is broken''
       [] (Some QueryType.EMERGENCY) 0
     = (Inr \<lparr>content = fallback_content, confidence = 0,
             agent_type = AgentType.EMERGENCY, reasoning_steps = [],
             quality_score = 0, attempts_used = 1\<rparr>, 1)"
    by (rule conjunct1 [OF first_round_failure_fallback
          [where client = failing_provider and improve = single_pass, OF h1 h2]])
  with h1 h2 show ?thesis by (intro conjI)
qed

theorem fallback_category_counterexample:
  "process_query failing_provider single_pass AgentType.EMERGENCY ''my tooth is broken'' []
     None 0 = (Inr (fallback_response AgentType.EMERGENCY), 1) \<and>
   agent_type (fallback_response AgentType.EMERGENCY) = AgentType.EMERGENCY \<and>
   agent_type (fallback_response AgentType.EMERGENCY) \<noteq> AgentType.GENERAL"
  by (simp add: failing_provider_process_query fallback_response_simps)




section \<open>The orchestrator\<close>





section \<open>The refinement loop\<close>









section \<open>Routing and personas\<close>

lemma route_of_simps:
  "route_of QueryType.DIAGNOSIS = AgentType.DIAGNOSTIC"
  "route_of QueryType.TREATMENT = AgentType.TREATMENT"
  "route_of QueryType.PREVENTION = AgentType.PREVENTION"
  "route_of QueryType.EMERGENCY = AgentType.EMERGENCY"
  "route_of QueryType.GENERAL = AgentType.GENERAL"
  "route_of QueryType.PROCEDURE = AgentType.TREATMENT"
  by (simp_all add: route_of_def routing_map_def)

lemma get_specialist_persona_simps:
  "get_specialist_persona AgentType.DIAGNOSTIC = base_persona @ specialization_diagnostic"
  "get_specialist_persona AgentType.TREATMENT = base_persona @ specialization_treatment"
  "get_specialist_persona AgentType.PREVENTION = base_persona @ specialization_prevention"
  "get_specialist_persona AgentType.EMERGENCY = base_persona @ specialization_emergency"
  "get_specialist_persona AgentType.GENERAL = base_persona @ specialization_general"
  by (simp_all add: get_specialist_persona_def specializations_def)

lemma specializations_distinct:
  "distinct [specialization_diagnostic, specialization_treatment, specialization_prevention,
             specialization_emergency, specialization_general]"
  by (simp add: specialization_diagnostic_def specialization_treatment_def
      specialization_prevention_def specialization_emergency_def specialization_general_def)

text \<open>
  C8 (as amended). There are five specialist personas, one per agent type (Diagnostic,
  Treatment, Prevention, Emergency, General), pairwise different, each the base persona
  followed by the specialization of its type. A question classified as Diagnosis,
  Treatment, Prevention, Emergency or General is routed to the agent of the same name; a
  Procedure question is routed to the Treatment agent. \<open>process_consultation\<close> hands the
  question to the agent that the routing table gives for its category.
\<close>

theorem routing_table_and_personas:
  "route_of QueryType.DIAGNOSIS = AgentType.DIAGNOSTIC \<and>
   route_of QueryType.TREATMENT = AgentType.TREATMENT \<and>
   route_of QueryType.PREVENTION = AgentType.PREVENTION \<and>
   route_of QueryType.EMERGENCY = AgentType.EMERGENCY \<and>
   route_of QueryType.GENERAL = AgentType.GENERAL \<and>
   route_of QueryType.PROCEDURE = AgentType.TREATMENT \<and>
   get_specialist_persona AgentType.DIAGNOSTIC = base_persona @ specialization_diagnostic \<and>
   get_specialist_persona AgentType.TREATMENT = base_persona @ specialization_treatment \<and>
   get_specialist_persona AgentType.PREVENTION = base_persona @ specialization_prevention \<and>
   get_specialist_persona AgentType.EMERGENCY = base_persona @ specialization_emergency \<and>
   get_specialist_persona AgentType.GENERAL = base_persona @ specialization_general \<and>
   distinct (map get_specialist_persona
      [AgentType.DIAGNOSTIC, AgentType.TREATMENT, AgentType.PREVENTION,
       AgentType.EMERGENCY, AgentType.GENERAL]) \<and>
   (\<exists>c. classify_query user_question = Inr c \<and>
        route_query user_question = Inr (route_of c) \<and>
        (\<forall>ctx chunks w1. rag user_question w = (Inr (ctx, chunks), w1) \<longrightarrow>
           process_consultation client improve rag user_question w
             = process_query client improve (route_of c) user_question ctx None w1))"
proof -
  obtain c where c: "classify_query user_question = Inr c"
    using classify_query_total by blast
  then have r: "route_query user_question = Inr (route_of c)"
    by (simp add: route_query_def)
  have pc: "\<forall>ctx chunks w1. rag user_question w = (Inr (ctx, chunks), w1) \<longrightarrow>
           process_consultation client improve rag user_question w
             = process_query client improve (route_of c) user_question ctx None w1"
    by (simp add: process_consultation_def r)
  have d: "distinct (map get_specialist_persona
      [AgentType.DIAGNOSTIC, AgentType.TREATMENT, AgentType.PREVENTION,
       AgentType.EMERGENCY, AgentType.GENERAL])"
    using specializations_distinct by (simp add: get_specialist_persona_simps)
  from c r pc have e: "\<exists>c. classify_query user_question = Inr c \<and>
        route_query user_question = Inr (route_of c) \<and>
        (\<forall>ctx chunks w1. rag user_question w = (Inr (ctx, chunks), w1) \<longrightarrow>
           process_consultation client improve rag user_question w
             = process_query client improve (route_of c) user_question ctx None w1)"
    by blast
  show ?thesis
    by (intro conjI route_of_simps get_specialist_persona_simps d e)
qed

lemma classify_implant: "classify_query ''What is an implant?'' = Inr QueryType.PROCEDURE"
  by code_simp

lemma classify_treatment: "classify_query ''Which treatment helps?'' = Inr QueryType.TREATMENT"
  by code_simp

theorem routing_table_and_personas_witness:
  "example_retriever ''What is an implant?'' 0
     = (Inr (''Implants replace missing teeth.'', [''chunk'']), 0) \<and>
   classify_query ''What is an implant?'' = Inr QueryType.PROCEDURE \<and>
   route_query ''What is an implant?'' = Inr AgentType.TREATMENT \<and>
   process_consultation drafting_provider single_pass example_retriever ''What is an implant?'' 0
     = process_query drafting_provider single_pass AgentType.TREATMENT ''What is an implant?''
         ''Implants replace missing teeth.'' None 0"
proof -
  have h: "example_retriever ''What is an implant?'' 0
     = (Inr (''Implants replace missing teeth.'', [''chunk'']), 0)"
    by (simp add: example_retriever_def)
  from routing_table_and_personas
    [where user_question = "''What is an implant?''" and rag = example_retriever and w = 0
       and client = drafting_provider and improve = single_pass]
  obtain c where c: "classify_query ''What is an implant?'' = Inr c"
    and r: "route_query ''What is an implant?'' = Inr (route_of c)"
    and p: "\<forall>ctx chunks w1. example_retriever ''What is an implant?'' 0 = (Inr (ctx, chunks), w1) \<longrightarrow>
           process_consultation drafting_provider single_pass example_retriever
              ''What is an implant?'' 0
             = process_query drafting_provider single_pass (route_of c) ''What is an implant?''
                 ctx None w1"
    by blast
  from c classify_implant have c': "c = QueryType.PROCEDURE" by simp
  from p h have "process_consultation drafting_provider single_pass example_retriever
              ''What is an implant?'' 0
             = process_query drafting_provider single_pass (route_of c) ''What is an implant?''
                 ''Implants replace missing teeth.'' None 0"
    by blast
  with h c r c' show ?thesis by (simp add: route_of_simps)
qed

theorem procedure_routed_to_treatment_counterexample:
  "classify_query ''What is an implant?'' = Inr QueryType.PROCEDURE \<and>
   route_query ''What is an implant?'' = Inr AgentType.TREATMENT \<and>
   classify_query ''Which treatment helps?'' = Inr QueryType.TREATMENT \<and>
   route_query ''Which treatment helps?'' = Inr AgentType.TREATMENT \<and>
   QueryType.PROCEDURE \<noteq> QueryType.TREATMENT \<and>
   get_specialist_persona AgentType.TREATMENT = base_persona @ specialization_treatment"
  by (simp add: route_query_def classify_implant classify_treatment route_of_simps
      get_specialist_persona_simps)

section \<open>The reprompt template\<close>










section \<open>Reasoning highlights\<close>







end
